theory Spec2Isabelle
  imports Complex_Main
begin

unbundle bit_operations_syntax

section \<open>ESPHome climate platform: data model\<close>

text \<open>
  The module \<^verbatim>\<open>homeassistant/components/esphome/climate.py\<close> adapts the climate entities
  of an ESPHome device to the climate entity surface of the host platform. The model follows
  the module function by function. Exceptions are values: a function that can raise returns
  \<open>error + 'a\<close>, with \<open>Inl\<close> for the exception. \<open>KeyError\<close> is raised by the module's
  own dictionary lookups; \<open>ClientError\<close> stands for whatever exception a call of the device
  client raises, which the module neither catches nor inspects.
\<close>

datatype error = KeyError | ClientError

text \<open>
  Python floats. The finite values are read as the real numbers they denote (every double is
  one, so a statement about all reals covers all doubles); the two infinities and NaN are
  separate values. The module only tests floats with \<^verbatim>\<open>math.isnan\<close>, compares them with
  \<^verbatim>\<open>>=\<close> and hands them on.
\<close>

datatype pyfloat = Finite real | PosInf | NegInf | NaN

fun isnan :: "pyfloat \<Rightarrow> bool" where
  "isnan NaN = True"
| "isnan _ = False"

text \<open>The comparison \<^verbatim>\<open>a >= b\<close> of Python numbers: false as soon as one side is NaN.\<close>

fun float_ge :: "pyfloat \<Rightarrow> pyfloat \<Rightarrow> bool" where
  "float_ge NaN _ = False"
| "float_ge _ NaN = False"
| "float_ge PosInf _ = True"
| "float_ge _ NegInf = True"
| "float_ge NegInf _ = False"
| "float_ge _ PosInf = False"
| "float_ge (Finite a) (Finite b) = (b \<le> a)"

text \<open>
  The enum \<^verbatim>\<open>ClimateMode\<close> of the device client library, with the four members the module
  names.
\<close>

datatype ClimateMode = OFF | AUTO | COOL | HEAT

text \<open>
  The constants the module imports from the host platform
  (\<^verbatim>\<open>homeassistant.const\<close> and \<^verbatim>\<open>homeassistant.components.climate.const\<close>). Their values
  are not part of the module, so every function that reads one takes the table as its first
  argument.
\<close>

record ha_const =
  STATE_OFF :: string
  STATE_AUTO :: string
  STATE_COOL :: string
  STATE_HEAT :: string
  TEMP_CELSIUS :: string
  PRECISION_WHOLE :: pyfloat
  PRECISION_HALVES :: pyfloat
  PRECISION_TENTHS :: pyfloat
  SUPPORT_TARGET_TEMPERATURE :: int
  SUPPORT_TARGET_TEMPERATURE_HIGH :: int
  SUPPORT_TARGET_TEMPERATURE_LOW :: int
  SUPPORT_OPERATION_MODE :: int
  SUPPORT_AWAY_MODE :: int
  ATTR_OPERATION_MODE :: string
  ATTR_TEMPERATURE :: string
  ATTR_TARGET_TEMP_LOW :: string
  ATTR_TARGET_TEMP_HIGH :: string

text \<open>The capability descriptor \<^verbatim>\<open>ClimateInfo\<close>: the fields the module reads.\<close>

record ClimateInfo =
  key :: int
  supports_two_point_target_temperature :: bool
  supported_modes :: "ClimateMode list"
  visual_min_temperature :: pyfloat
  visual_max_temperature :: pyfloat
  visual_temperature_step :: pyfloat
  supports_away :: bool

text \<open>
  The runtime snapshot \<^verbatim>\<open>ClimateState\<close>. The fields carry the prefix \<open>state_\<close>, since the
  entity's properties have the names of the fields.
\<close>

record ClimateState =
  state_mode :: ClimateMode
  state_current_temperature :: pyfloat
  state_target_temperature :: pyfloat
  state_target_temperature_low :: pyfloat
  state_target_temperature_high :: pyfloat
  state_away :: bool

text \<open>
  Values that arrive in the keyword arguments of \<^verbatim>\<open>async_set_temperature\<close>.
\<close>

datatype pyval = PNone | PStr string | PInt int | PFloat pyfloat

text \<open>
  One call \<^verbatim>\<open>client.climate_command(**data)\<close>. The dictionary \<^verbatim>\<open>data\<close> only ever has the
  literal keys \<^verbatim>\<open>key\<close>, \<^verbatim>\<open>mode\<close>, \<^verbatim>\<open>target_temperature\<close>, \<^verbatim>\<open>target_temperature_low\<close>,
  \<^verbatim>\<open>target_temperature_high\<close> and \<^verbatim>\<open>away\<close>; a key that is not in the dictionary is \<open>None\<close>
  here.
\<close>

record climate_command_data =
  cmd_key :: int
  cmd_mode :: "ClimateMode option"
  cmd_target_temperature :: "pyval option"
  cmd_target_temperature_low :: "pyval option"
  cmd_target_temperature_high :: "pyval option"
  cmd_away :: "bool option"

text \<open>
  The entity: \<^verbatim>\<open>_static_info\<close>, \<^verbatim>\<open>_state\<close> (which may be \<^verbatim>\<open>None\<close>) and \<^verbatim>\<open>_client\<close>.
  The client is the sequence of the calls of \<^verbatim>\<open>climate_command\<close> made on it, oldest first.
\<close>

record EsphomeClimateDevice =
  static_info :: ClimateInfo
  state :: "ClimateState option"
  client :: "climate_command_data list"

section \<open>Mode translation\<close>

text \<open>Subscription \<^verbatim>\<open>d[k]\<close> of a dictionary: \<^verbatim>\<open>KeyError\<close> when the key is missing.\<close>

definition getitem :: "('k \<rightharpoonup> 'v) \<Rightarrow> 'k \<Rightarrow> error + 'v" where
  "getitem d k = (case d k of None \<Rightarrow> Inl KeyError | Some v \<Rightarrow> Inr v)"

text \<open>
  The dictionary displays are built entry by entry, in the order written, so that a later
  entry replaces an earlier one with an equal key, as in Python.
\<close>

definition ha_climate_mode_to_esphome :: "ha_const \<Rightarrow> string \<Rightarrow> error + ClimateMode" where
  "ha_climate_mode_to_esphome K mode =
     getitem (Map.empty(STATE_OFF K \<mapsto> OFF, STATE_AUTO K \<mapsto> AUTO,
                        STATE_COOL K \<mapsto> COOL, STATE_HEAT K \<mapsto> HEAT)) mode"

definition esphome_climate_mode_to_ha :: "ha_const \<Rightarrow> ClimateMode \<Rightarrow> error + string" where
  "esphome_climate_mode_to_ha K mode =
     getitem (Map.empty(OFF \<mapsto> STATE_OFF K, AUTO \<mapsto> STATE_AUTO K,
                        COOL \<mapsto> STATE_COOL K, HEAT \<mapsto> STATE_HEAT K)) mode"

section \<open>The entity's properties\<close>

text \<open>
  \<^verbatim>\<open>precision\<close>: the loop over the three precisions returns the first one that the visual
  temperature step reaches; \<open>None\<close> means the loop ran to its end.
\<close>

fun precision_loop :: "pyfloat \<Rightarrow> pyfloat list \<Rightarrow> pyfloat option" where
  "precision_loop step [] = None"
| "precision_loop step (prec # precicions) =
     (if float_ge step prec then Some prec else precision_loop step precicions)"

definition precision :: "ha_const \<Rightarrow> EsphomeClimateDevice \<Rightarrow> pyfloat" where
  "precision K self =
     (case precision_loop (visual_temperature_step (static_info self))
             [PRECISION_WHOLE K, PRECISION_HALVES K, PRECISION_TENTHS K] of
        Some prec \<Rightarrow> prec
      | None \<Rightarrow> PRECISION_TENTHS K)"

definition temperature_unit :: "ha_const \<Rightarrow> EsphomeClimateDevice \<Rightarrow> string" where
  "temperature_unit K self = TEMP_CELSIUS K"

text \<open>The list comprehension of \<^verbatim>\<open>operation_list\<close>: it stops at the first element that raises.\<close>

fun operation_list_of :: "ha_const \<Rightarrow> ClimateMode list \<Rightarrow> error + string list" where
  "operation_list_of K [] = Inr []"
| "operation_list_of K (mode # modes) =
     (case esphome_climate_mode_to_ha K mode of
        Inl e \<Rightarrow> Inl e
      | Inr s \<Rightarrow> (case operation_list_of K modes of
                    Inl e \<Rightarrow> Inl e
                  | Inr ss \<Rightarrow> Inr (s # ss)))"

definition operation_list :: "ha_const \<Rightarrow> EsphomeClimateDevice \<Rightarrow> error + string list" where
  "operation_list K self = operation_list_of K (supported_modes (static_info self))"

text \<open>
  \<^verbatim>\<open>target_temperature_step\<close> calls Python's built-in \<^verbatim>\<open>round(x, 1)\<close>. The built-in is the
  argument \<open>py_round\<close>: what it computes on a double is the language's matter, not the module's.
\<close>

definition target_temperature_step ::
  "(pyfloat \<Rightarrow> int \<Rightarrow> pyfloat) \<Rightarrow> EsphomeClimateDevice \<Rightarrow> pyfloat" where
  "target_temperature_step py_round self =
     py_round (visual_temperature_step (static_info self)) 1"

definition min_temp :: "EsphomeClimateDevice \<Rightarrow> pyfloat" where
  "min_temp self = visual_min_temperature (static_info self)"

definition max_temp :: "EsphomeClimateDevice \<Rightarrow> pyfloat" where
  "max_temp self = visual_max_temperature (static_info self)"

definition supported_features :: "ha_const \<Rightarrow> EsphomeClimateDevice \<Rightarrow> int" where
  "supported_features K self =
     (let features = SUPPORT_OPERATION_MODE K;
          features =
            (if supports_two_point_target_temperature (static_info self)
             then features OR (SUPPORT_TARGET_TEMPERATURE_LOW K OR
                               SUPPORT_TARGET_TEMPERATURE_HIGH K)
             else features OR SUPPORT_TARGET_TEMPERATURE K);
          features =
            (if supports_away (static_info self)
             then features OR SUPPORT_AWAY_MODE K
             else features)
      in features)"

definition current_operation ::
  "ha_const \<Rightarrow> EsphomeClimateDevice \<Rightarrow> error + string option" where
  "current_operation K self =
     (case state self of
        None \<Rightarrow> Inr None
      | Some st \<Rightarrow> (case esphome_climate_mode_to_ha K (state_mode st) of
                     Inl e \<Rightarrow> Inl e
                   | Inr s \<Rightarrow> Inr (Some s)))"

definition current_temperature :: "EsphomeClimateDevice \<Rightarrow> pyfloat option" where
  "current_temperature self =
     (case state self of
        None \<Rightarrow> None
      | Some st \<Rightarrow> if isnan (state_current_temperature st) then None
                   else Some (state_current_temperature st))"

definition target_temperature :: "EsphomeClimateDevice \<Rightarrow> pyfloat option" where
  "target_temperature self =
     (case state self of
        None \<Rightarrow> None
      | Some st \<Rightarrow> if isnan (state_target_temperature st) then None
                   else Some (state_target_temperature st))"

definition target_temperature_low :: "EsphomeClimateDevice \<Rightarrow> pyfloat option" where
  "target_temperature_low self =
     (case state self of
        None \<Rightarrow> None
      | Some st \<Rightarrow> if isnan (state_target_temperature_low st) then None
                   else Some (state_target_temperature_low st))"

definition target_temperature_high :: "EsphomeClimateDevice \<Rightarrow> pyfloat option" where
  "target_temperature_high self =
     (case state self of
        None \<Rightarrow> None
      | Some st \<Rightarrow> if isnan (state_target_temperature_high st) then None
                   else Some (state_target_temperature_high st))"

definition is_away_mode_on :: "EsphomeClimateDevice \<Rightarrow> bool option" where
  "is_away_mode_on self =
     (case state self of
        None \<Rightarrow> None
      | Some st \<Rightarrow> Some (state_away st))"

section \<open>Commands\<close>

text \<open>
  A command method either returns or raises, and leaves an entity behind in both cases: the
  result is the pair of the two.
\<close>

datatype outcome = Returned | Raised error

text \<open>
  The method \<^verbatim>\<open>climate_command\<close> belongs to the device client library. What it does with a
  call is the argument \<open>api\<close>: given the arguments of the call and the calls made before, it
  says whether the call returns (\<open>None\<close>) or raises (\<open>Some e\<close>), for instance because the
  connection is down. The module awaits the call without a \<^verbatim>\<open>try\<close>, so the call's exception
  is the method's. The call is made in both cases, and is recorded.
\<close>

type_synonym client_api = "climate_command_data \<Rightarrow> climate_command_data list \<Rightarrow> error option"

definition client_outcome ::
  "client_api \<Rightarrow> climate_command_data \<Rightarrow> EsphomeClimateDevice \<Rightarrow> outcome" where
  "client_outcome api data self =
     (case api data (client self) of None \<Rightarrow> Returned | Some e \<Rightarrow> Raised e)"

definition climate_command ::
  "client_api \<Rightarrow> climate_command_data \<Rightarrow> EsphomeClimateDevice
     \<Rightarrow> outcome \<times> EsphomeClimateDevice" where
  "climate_command api data self =
     (client_outcome api data self, self\<lparr>client := client self @ [data]\<rparr>)"

text \<open>
  The operation mode in the keyword arguments goes through the same dictionary. All keys of
  that dictionary are strings, so a value that is no string is a missing key.
\<close>

fun ha_climate_mode_of_kwarg :: "ha_const \<Rightarrow> pyval \<Rightarrow> error + ClimateMode" where
  "ha_climate_mode_of_kwarg K (PStr mode) = ha_climate_mode_to_esphome K mode"
| "ha_climate_mode_of_kwarg K _ = Inl KeyError"

definition async_set_temperature ::
  "ha_const \<Rightarrow> client_api \<Rightarrow> EsphomeClimateDevice \<Rightarrow> (string \<rightharpoonup> pyval)
     \<Rightarrow> outcome \<times> EsphomeClimateDevice" where
  "async_set_temperature K api self kwargs =
     (let data = \<lparr> cmd_key = key (static_info self), cmd_mode = None,
                   cmd_target_temperature = None, cmd_target_temperature_low = None,
                   cmd_target_temperature_high = None, cmd_away = None \<rparr>
      in case (case kwargs (ATTR_OPERATION_MODE K) of
                 None \<Rightarrow> Inr data
               | Some v \<Rightarrow> (case ha_climate_mode_of_kwarg K v of
                              Inl e \<Rightarrow> Inl e
                            | Inr m \<Rightarrow> Inr (data\<lparr>cmd_mode := Some m\<rparr>))) of
           Inl e \<Rightarrow> (Raised e, self)
         | Inr data \<Rightarrow>
             (let data = (case kwargs (ATTR_TEMPERATURE K) of
                            None \<Rightarrow> data
                          | Some v \<Rightarrow> data\<lparr>cmd_target_temperature := Some v\<rparr>);
                  data = (case kwargs (ATTR_TARGET_TEMP_LOW K) of
                            None \<Rightarrow> data
                          | Some v \<Rightarrow> data\<lparr>cmd_target_temperature_low := Some v\<rparr>);
                  data = (case kwargs (ATTR_TARGET_TEMP_HIGH K) of
                            None \<Rightarrow> data
                          | Some v \<Rightarrow> data\<lparr>cmd_target_temperature_high := Some v\<rparr>)
              in climate_command api data self))"

definition async_set_operation_mode ::
  "ha_const \<Rightarrow> client_api \<Rightarrow> EsphomeClimateDevice \<Rightarrow> string
     \<Rightarrow> outcome \<times> EsphomeClimateDevice" where
  "async_set_operation_mode K api self operation_mode =
     (case ha_climate_mode_to_esphome K operation_mode of
        Inl e \<Rightarrow> (Raised e, self)
      | Inr m \<Rightarrow>
          climate_command api
            \<lparr> cmd_key = key (static_info self), cmd_mode = Some m,
              cmd_target_temperature = None, cmd_target_temperature_low = None,
              cmd_target_temperature_high = None, cmd_away = None \<rparr> self)"

definition async_turn_away_mode_on ::
  "client_api \<Rightarrow> EsphomeClimateDevice \<Rightarrow> outcome \<times> EsphomeClimateDevice" where
  "async_turn_away_mode_on api self =
     climate_command api
       \<lparr> cmd_key = key (static_info self), cmd_mode = None,
         cmd_target_temperature = None, cmd_target_temperature_low = None,
         cmd_target_temperature_high = None, cmd_away = Some True \<rparr> self"

definition async_turn_away_mode_off ::
  "client_api \<Rightarrow> EsphomeClimateDevice \<Rightarrow> outcome \<times> EsphomeClimateDevice" where
  "async_turn_away_mode_off api self =
     climate_command api
       \<lparr> cmd_key = key (static_info self), cmd_mode = None,
         cmd_target_temperature = None, cmd_target_temperature_low = None,
         cmd_target_temperature_high = None, cmd_away = Some False \<rparr> self"

section \<open>Sample data\<close>

text \<open>
  A table of constants, a device, keyword arguments and two clients (one that accepts every
  call, one whose every call raises) with which the closed examples are evaluated.
\<close>

definition sample_const :: ha_const where
  "sample_const =
     \<lparr> STATE_OFF = ''off'', STATE_AUTO = ''auto'', STATE_COOL = ''cool'', STATE_HEAT = ''heat'',
       TEMP_CELSIUS = [CHR 0xC2, CHR 0xB0, CHR ''C''],
       PRECISION_WHOLE = Finite 1, PRECISION_HALVES = Finite (1 / 2),
       PRECISION_TENTHS = Finite (1 / 10),
       SUPPORT_TARGET_TEMPERATURE = 1, SUPPORT_TARGET_TEMPERATURE_HIGH = 2,
       SUPPORT_TARGET_TEMPERATURE_LOW = 4, SUPPORT_OPERATION_MODE = 128,
       SUPPORT_AWAY_MODE = 1024,
       ATTR_OPERATION_MODE = ''operation_mode'', ATTR_TEMPERATURE = ''temperature'',
       ATTR_TARGET_TEMP_LOW = ''target_temp_low'', ATTR_TARGET_TEMP_HIGH = ''target_temp_high'' \<rparr>"

definition sample_info :: ClimateInfo where
  "sample_info =
     \<lparr> key = 42, supports_two_point_target_temperature = True,
       supported_modes = [OFF, HEAT, COOL],
       visual_min_temperature = Finite 10, visual_max_temperature = Finite 30,
       visual_temperature_step = Finite (1 / 2), supports_away = False \<rparr>"

definition sample_state :: ClimateState where
  "sample_state =
     \<lparr> state_mode = HEAT, state_current_temperature = Finite 19,
       state_target_temperature = NaN, state_target_temperature_low = Finite 18,
       state_target_temperature_high = Finite 24, state_away = False \<rparr>"

definition sample_device :: EsphomeClimateDevice where
  "sample_device = \<lparr> static_info = sample_info, state = Some sample_state, client = [] \<rparr>"

definition sample_kwargs :: "string \<rightharpoonup> pyval" where
  "sample_kwargs = [''temperature'' \<mapsto> PFloat (Finite 21)]"

definition sample_kwargs_mode :: "string \<rightharpoonup> pyval" where
  "sample_kwargs_mode =
     [''operation_mode'' \<mapsto> PStr ''cool'', ''target_temp_low'' \<mapsto> PInt 18,
      ''target_temp_high'' \<mapsto> PFloat (Finite 24)]"

definition sample_kwargs_dry :: "string \<rightharpoonup> pyval" where
  "sample_kwargs_dry = [''operation_mode'' \<mapsto> PStr ''dry'', ''temperature'' \<mapsto> PInt 21]"

definition sample_api_up :: client_api where
  "sample_api_up data sent = None"

definition sample_api_down :: client_api where
  "sample_api_down data sent = Some ClientError"

section \<open>The two translations are inverse\<close>

text \<open>
  With the four members of the enum as keys no lookup fails; the other dictionary is read
  from its last entry back, since that is the one a duplicate key would keep.
\<close>

lemma esphome_climate_mode_to_ha_total:
  "esphome_climate_mode_to_ha K m =
     Inr (case m of OFF \<Rightarrow> STATE_OFF K | AUTO \<Rightarrow> STATE_AUTO K
                  | COOL \<Rightarrow> STATE_COOL K | HEAT \<Rightarrow> STATE_HEAT K)"
  by (cases m) (simp_all add: esphome_climate_mode_to_ha_def getitem_def)

lemma ha_climate_mode_to_esphome_cases:
  "ha_climate_mode_to_esphome K s =
     (if s = STATE_HEAT K then Inr HEAT
      else if s = STATE_COOL K then Inr COOL
      else if s = STATE_AUTO K then Inr AUTO
      else if s = STATE_OFF K then Inr OFF
      else Inl KeyError)"
  by (simp add: ha_climate_mode_to_esphome_def getitem_def)

text \<open>
  C1. When the four state strings of the platform are pairwise different, the two
  translations are inverse to each other: every mode of the enum is translated to a string
  that translates back to it, every one of the four strings is translated to a mode that
  translates back to it, and each function maps the four values of its side onto the four
  of the other side.
\<close>

theorem climate_mode_translation_inverse:
  assumes "distinct [STATE_OFF K, STATE_AUTO K, STATE_COOL K, STATE_HEAT K]"
  shows "(\<forall>m. \<exists>s. esphome_climate_mode_to_ha K m = Inr s
                 \<and> ha_climate_mode_to_esphome K s = Inr m)
       \<and> (\<forall>s \<in> {STATE_OFF K, STATE_AUTO K, STATE_COOL K, STATE_HEAT K}.
            \<exists>m. ha_climate_mode_to_esphome K s = Inr m
               \<and> esphome_climate_mode_to_ha K m = Inr s)
       \<and> esphome_climate_mode_to_ha K ` {OFF, AUTO, COOL, HEAT}
           = Inr ` {STATE_OFF K, STATE_AUTO K, STATE_COOL K, STATE_HEAT K}
       \<and> ha_climate_mode_to_esphome K ` {STATE_OFF K, STATE_AUTO K, STATE_COOL K, STATE_HEAT K}
           = Inr ` {OFF, AUTO, COOL, HEAT}"
proof (intro conjI allI ballI)
  fix m
  show "\<exists>s. esphome_climate_mode_to_ha K m = Inr s \<and> ha_climate_mode_to_esphome K s = Inr m"
    using assms
    by (cases m)
       (auto simp add: esphome_climate_mode_to_ha_total ha_climate_mode_to_esphome_cases)
next
  fix s
  assume "s \<in> {STATE_OFF K, STATE_AUTO K, STATE_COOL K, STATE_HEAT K}"
  then show "\<exists>m. ha_climate_mode_to_esphome K s = Inr m
                \<and> esphome_climate_mode_to_ha K m = Inr s"
    by (auto simp add: esphome_climate_mode_to_ha_total ha_climate_mode_to_esphome_cases)
next
  show "esphome_climate_mode_to_ha K ` {OFF, AUTO, COOL, HEAT}
           = Inr ` {STATE_OFF K, STATE_AUTO K, STATE_COOL K, STATE_HEAT K}"
    by (simp add: esphome_climate_mode_to_ha_total)
next
  show "ha_climate_mode_to_esphome K ` {STATE_OFF K, STATE_AUTO K, STATE_COOL K, STATE_HEAT K}
           = Inr ` {OFF, AUTO, COOL, HEAT}"
    using assms by (auto simp add: ha_climate_mode_to_esphome_cases)
qed

theorem climate_mode_translation_inverse_witness:
  "distinct [STATE_OFF sample_const, STATE_AUTO sample_const, STATE_COOL sample_const,
             STATE_HEAT sample_const]
   \<and> esphome_climate_mode_to_ha sample_const COOL = Inr ''cool''
   \<and> ha_climate_mode_to_esphome sample_const ''cool'' = Inr COOL
   \<and> (\<exists>m. ha_climate_mode_to_esphome sample_const ''heat'' = Inr m
          \<and> esphome_climate_mode_to_ha sample_const m = Inr ''heat'')"
proof -
  have d: "distinct [STATE_OFF sample_const, STATE_AUTO sample_const, STATE_COOL sample_const,
             STATE_HEAT sample_const]"
    by (simp add: sample_const_def)
  have h: "''heat'' \<in> {STATE_OFF sample_const, STATE_AUTO sample_const,
             STATE_COOL sample_const, STATE_HEAT sample_const}"
    by (simp add: sample_const_def)
  have c: "esphome_climate_mode_to_ha sample_const COOL = Inr ''cool''"
    by (simp add: esphome_climate_mode_to_ha_total sample_const_def)
  from climate_mode_translation_inverse [OF d] h d c show ?thesis
    by (metis sum.inject(2))
qed

section \<open>What the properties return\<close>

text \<open>
  C5. The temperature unit is the platform's constant for degrees Celsius, for every entity:
  two entities, whatever their static info and state, report the same unit.
\<close>

theorem temperature_unit_constant:
  "temperature_unit K self = TEMP_CELSIUS K
   \<and> temperature_unit K self = temperature_unit K self'"
  by (simp add: temperature_unit_def)

lemma operation_list_of_map:
  "operation_list_of K modes =
     Inr (map (\<lambda>m. case m of OFF \<Rightarrow> STATE_OFF K | AUTO \<Rightarrow> STATE_AUTO K
                           | COOL \<Rightarrow> STATE_COOL K | HEAT \<Rightarrow> STATE_HEAT K) modes)"
  by (induction modes) (simp_all add: esphome_climate_mode_to_ha_total)

text \<open>
  C6. The operation list is computed without an exception and is the element-wise
  translation of the supported modes of the static info: it has their length, and its
  element at every position is the translation of the mode at that position.
\<close>

theorem operation_list_elementwise:
  "\<exists>ss. operation_list K self = Inr ss
      \<and> length ss = length (supported_modes (static_info self))
      \<and> map Inr ss = map (esphome_climate_mode_to_ha K) (supported_modes (static_info self))"
  by (simp add: operation_list_def operation_list_of_map esphome_climate_mode_to_ha_total)

text \<open>
  C7. The minimum and maximum temperature are the visual bounds of the static info, the
  target temperature step is the built-in rounding of the visual temperature step to one
  digit, and none of the three changes when the state of the entity is replaced.
\<close>

theorem temperature_bounds_from_static_info:
  "min_temp self = visual_min_temperature (static_info self)
   \<and> max_temp self = visual_max_temperature (static_info self)
   \<and> target_temperature_step py_round self
       = py_round (visual_temperature_step (static_info self)) 1
   \<and> min_temp (self\<lparr>state := st\<rparr>) = min_temp self
   \<and> max_temp (self\<lparr>state := st\<rparr>) = max_temp self
   \<and> target_temperature_step py_round (self\<lparr>state := st\<rparr>)
       = target_temperature_step py_round self"
  by (simp add: min_temp_def max_temp_def target_temperature_step_def)

lemma supported_features_value:
  "supported_features K self =
     SUPPORT_OPERATION_MODE K
     OR (if supports_two_point_target_temperature (static_info self)
         then SUPPORT_TARGET_TEMPERATURE_LOW K OR SUPPORT_TARGET_TEMPERATURE_HIGH K
         else SUPPORT_TARGET_TEMPERATURE K)
     OR (if supports_away (static_info self) then SUPPORT_AWAY_MODE K else 0)"
  by (simp add: supported_features_def Let_def ac_simps)

text \<open>
  C2. Let the five feature flags of the platform be non-zero and share no bit with each
  other. Then the feature mask of an entity contains the operation-mode flag; it contains
  the low and the high target flag exactly when the device has a two-point target
  temperature, and the single target flag exactly when it has not; it contains the away
  flag exactly when the device supports away mode; and it has no bit outside the five flags.
\<close>

theorem supported_features_bitmask:
  assumes nonzero:
    "SUPPORT_OPERATION_MODE K \<noteq> 0" "SUPPORT_TARGET_TEMPERATURE K \<noteq> 0"
    "SUPPORT_TARGET_TEMPERATURE_LOW K \<noteq> 0" "SUPPORT_TARGET_TEMPERATURE_HIGH K \<noteq> 0"
    "SUPPORT_AWAY_MODE K \<noteq> 0"
  assumes disjoint:
    "SUPPORT_OPERATION_MODE K AND SUPPORT_TARGET_TEMPERATURE K = 0"
    "SUPPORT_OPERATION_MODE K AND SUPPORT_TARGET_TEMPERATURE_LOW K = 0"
    "SUPPORT_OPERATION_MODE K AND SUPPORT_TARGET_TEMPERATURE_HIGH K = 0"
    "SUPPORT_OPERATION_MODE K AND SUPPORT_AWAY_MODE K = 0"
    "SUPPORT_TARGET_TEMPERATURE K AND SUPPORT_TARGET_TEMPERATURE_LOW K = 0"
    "SUPPORT_TARGET_TEMPERATURE K AND SUPPORT_TARGET_TEMPERATURE_HIGH K = 0"
    "SUPPORT_TARGET_TEMPERATURE K AND SUPPORT_AWAY_MODE K = 0"
    "SUPPORT_TARGET_TEMPERATURE_LOW K AND SUPPORT_TARGET_TEMPERATURE_HIGH K = 0"
    "SUPPORT_TARGET_TEMPERATURE_LOW K AND SUPPORT_AWAY_MODE K = 0"
    "SUPPORT_TARGET_TEMPERATURE_HIGH K AND SUPPORT_AWAY_MODE K = 0"
  shows "supported_features K self AND SUPPORT_OPERATION_MODE K = SUPPORT_OPERATION_MODE K
       \<and> (supported_features K self AND SUPPORT_TARGET_TEMPERATURE_LOW K
            = SUPPORT_TARGET_TEMPERATURE_LOW K
          \<longleftrightarrow> supports_two_point_target_temperature (static_info self))
       \<and> (supported_features K self AND SUPPORT_TARGET_TEMPERATURE_HIGH K
            = SUPPORT_TARGET_TEMPERATURE_HIGH K
          \<longleftrightarrow> supports_two_point_target_temperature (static_info self))
       \<and> (supported_features K self AND SUPPORT_TARGET_TEMPERATURE K
            = SUPPORT_TARGET_TEMPERATURE K
          \<longleftrightarrow> \<not> supports_two_point_target_temperature (static_info self))
       \<and> (supported_features K self AND SUPPORT_AWAY_MODE K = SUPPORT_AWAY_MODE K
          \<longleftrightarrow> supports_away (static_info self))
       \<and> supported_features K self
           AND NOT (SUPPORT_OPERATION_MODE K OR SUPPORT_TARGET_TEMPERATURE K OR
                    SUPPORT_TARGET_TEMPERATURE_LOW K OR SUPPORT_TARGET_TEMPERATURE_HIGH K OR
                    SUPPORT_AWAY_MODE K) = 0"
proof -
  let ?f = "supported_features K self"
  let ?two_point = "supports_two_point_target_temperature (static_info self)"
  let ?away = "supports_away (static_info self)"
  note d = disjoint disjoint [THEN trans [OF and.commute]]
  note v = supported_features_value [of K self]
  have 1: "?f AND SUPPORT_OPERATION_MODE K = SUPPORT_OPERATION_MODE K"
    unfolding v by (simp add: bit.conj_disj_distrib2 d)
  have 2: "?f AND SUPPORT_TARGET_TEMPERATURE_LOW K
             = (if ?two_point then SUPPORT_TARGET_TEMPERATURE_LOW K else 0)"
    unfolding v by (simp add: bit.conj_disj_distrib2 d)
  have 3: "?f AND SUPPORT_TARGET_TEMPERATURE_HIGH K
             = (if ?two_point then SUPPORT_TARGET_TEMPERATURE_HIGH K else 0)"
    unfolding v by (simp add: bit.conj_disj_distrib2 d)
  have 4: "?f AND SUPPORT_TARGET_TEMPERATURE K
             = (if ?two_point then 0 else SUPPORT_TARGET_TEMPERATURE K)"
    unfolding v by (simp add: bit.conj_disj_distrib2 d)
  have 5: "?f AND SUPPORT_AWAY_MODE K = (if ?away then SUPPORT_AWAY_MODE K else 0)"
    unfolding v by (simp add: bit.conj_disj_distrib2 d)
  have 6: "?f AND NOT (SUPPORT_OPERATION_MODE K OR SUPPORT_TARGET_TEMPERATURE K OR
                     SUPPORT_TARGET_TEMPERATURE_LOW K OR SUPPORT_TARGET_TEMPERATURE_HIGH K OR
                     SUPPORT_AWAY_MODE K) = 0"
    unfolding v by (auto simp add: bit_eq_iff bit_simps)
  from 1 2 3 4 5 6 nonzero show ?thesis by auto
qed

theorem supported_features_bitmask_witness:
  "supported_features sample_const sample_device = 134
   \<and> supported_features sample_const sample_device AND SUPPORT_OPERATION_MODE sample_const
       = SUPPORT_OPERATION_MODE sample_const
   \<and> supported_features sample_const sample_device AND SUPPORT_TARGET_TEMPERATURE_LOW sample_const
       = SUPPORT_TARGET_TEMPERATURE_LOW sample_const
   \<and> supported_features sample_const sample_device AND SUPPORT_TARGET_TEMPERATURE sample_const
       \<noteq> SUPPORT_TARGET_TEMPERATURE sample_const
   \<and> supported_features sample_const sample_device AND SUPPORT_AWAY_MODE sample_const
       \<noteq> SUPPORT_AWAY_MODE sample_const"
proof -
  have t: "supports_two_point_target_temperature (static_info sample_device)"
    and a: "\<not> supports_away (static_info sample_device)"
    by (simp_all add: sample_device_def sample_info_def)
  have v: "supported_features sample_const sample_device = 134"
    by (simp add: supported_features_def sample_const_def sample_device_def sample_info_def)
  have "supported_features sample_const sample_device AND SUPPORT_OPERATION_MODE sample_const
       = SUPPORT_OPERATION_MODE sample_const
     \<and> (supported_features sample_const sample_device
          AND SUPPORT_TARGET_TEMPERATURE_LOW sample_const
            = SUPPORT_TARGET_TEMPERATURE_LOW sample_const
          \<longleftrightarrow> supports_two_point_target_temperature (static_info sample_device))
     \<and> (supported_features sample_const sample_device
          AND SUPPORT_TARGET_TEMPERATURE_HIGH sample_const
            = SUPPORT_TARGET_TEMPERATURE_HIGH sample_const
          \<longleftrightarrow> supports_two_point_target_temperature (static_info sample_device))
     \<and> (supported_features sample_const sample_device
          AND SUPPORT_TARGET_TEMPERATURE sample_const
            = SUPPORT_TARGET_TEMPERATURE sample_const
          \<longleftrightarrow> \<not> supports_two_point_target_temperature (static_info sample_device))
     \<and> (supported_features sample_const sample_device AND SUPPORT_AWAY_MODE sample_const
            = SUPPORT_AWAY_MODE sample_const
          \<longleftrightarrow> supports_away (static_info sample_device))
     \<and> supported_features sample_const sample_device
           AND NOT (SUPPORT_OPERATION_MODE sample_const OR
                    SUPPORT_TARGET_TEMPERATURE sample_const OR
                    SUPPORT_TARGET_TEMPERATURE_LOW sample_const OR
                    SUPPORT_TARGET_TEMPERATURE_HIGH sample_const OR
                    SUPPORT_AWAY_MODE sample_const) = 0"
    by (rule supported_features_bitmask) (simp_all add: sample_const_def)
  with t a v show ?thesis by simp
qed

text \<open>
  The null-check is not the only way to \<^verbatim>\<open>None\<close>: the sample device has a state, its target
  temperature is NaN, and the property returns \<^verbatim>\<open>None\<close> and not the field.
\<close>

theorem getter_none_with_state_counterexample:
  "state sample_device = Some sample_state
   \<and> target_temperature sample_device = None
   \<and> target_temperature sample_device \<noteq> Some (state_target_temperature sample_state)"
  by (simp add: target_temperature_def sample_device_def sample_state_def)

text \<open>
  C3, as amended. When the state of the entity is \<^verbatim>\<open>None\<close>, the current operation, the
  four temperatures and the away flag are all \<^verbatim>\<open>None\<close>, and no exception is raised. When
  the state is present, the current operation is the translation of the state's mode, the
  away flag is the state's flag, and each temperature is the state's field unless that field
  is NaN, in which case it is \<^verbatim>\<open>None\<close> as well.
\<close>

theorem getters_null_check:
  "(state self = None \<longrightarrow>
      current_operation K self = Inr None
      \<and> current_temperature self = None
      \<and> target_temperature self = None
      \<and> target_temperature_low self = None
      \<and> target_temperature_high self = None
      \<and> is_away_mode_on self = None)
   \<and> (\<forall>st. state self = Some st \<longrightarrow>
      (\<exists>s. esphome_climate_mode_to_ha K (state_mode st) = Inr s
           \<and> current_operation K self = Inr (Some s))
      \<and> current_temperature self
          = (if isnan (state_current_temperature st) then None
             else Some (state_current_temperature st))
      \<and> target_temperature self
          = (if isnan (state_target_temperature st) then None
             else Some (state_target_temperature st))
      \<and> target_temperature_low self
          = (if isnan (state_target_temperature_low st) then None
             else Some (state_target_temperature_low st))
      \<and> target_temperature_high self
          = (if isnan (state_target_temperature_high st) then None
             else Some (state_target_temperature_high st))
      \<and> is_away_mode_on self = Some (state_away st))"
  by (simp add: current_operation_def current_temperature_def target_temperature_def
        target_temperature_low_def target_temperature_high_def is_away_mode_on_def
        esphome_climate_mode_to_ha_total)

theorem getters_null_check_witness:
  "state (sample_device\<lparr>state := None\<rparr>) = None
   \<and> current_operation sample_const (sample_device\<lparr>state := None\<rparr>) = Inr None
   \<and> is_away_mode_on (sample_device\<lparr>state := None\<rparr>) = None
   \<and> state sample_device = Some sample_state
   \<and> current_operation sample_const sample_device = Inr (Some ''heat'')
   \<and> current_temperature sample_device = Some (Finite 19)
   \<and> target_temperature sample_device = None
   \<and> is_away_mode_on sample_device = Some False"
  using getters_null_check [of "sample_device\<lparr>state := None\<rparr>" sample_const]
    getters_null_check [of sample_device sample_const]
  by (simp add: sample_device_def sample_state_def sample_const_def
        esphome_climate_mode_to_ha_total)

text \<open>
  C8. For an entity with a state, each of the four temperature properties is \<^verbatim>\<open>None\<close>
  when its field of the state is NaN and is the field's value otherwise; no property ever
  returns NaN.
\<close>

theorem nan_never_exposed:
  assumes "state self = Some st"
  shows "(isnan (state_current_temperature st) \<longrightarrow> current_temperature self = None)
       \<and> (\<not> isnan (state_current_temperature st) \<longrightarrow>
            current_temperature self = Some (state_current_temperature st))
       \<and> (isnan (state_target_temperature st) \<longrightarrow> target_temperature self = None)
       \<and> (\<not> isnan (state_target_temperature st) \<longrightarrow>
            target_temperature self = Some (state_target_temperature st))
       \<and> (isnan (state_target_temperature_low st) \<longrightarrow> target_temperature_low self = None)
       \<and> (\<not> isnan (state_target_temperature_low st) \<longrightarrow>
            target_temperature_low self = Some (state_target_temperature_low st))
       \<and> (isnan (state_target_temperature_high st) \<longrightarrow> target_temperature_high self = None)
       \<and> (\<not> isnan (state_target_temperature_high st) \<longrightarrow>
            target_temperature_high self = Some (state_target_temperature_high st))
       \<and> current_temperature self \<noteq> Some NaN
       \<and> target_temperature self \<noteq> Some NaN
       \<and> target_temperature_low self \<noteq> Some NaN
       \<and> target_temperature_high self \<noteq> Some NaN"
  using assms
  by (auto simp add: current_temperature_def target_temperature_def
        target_temperature_low_def target_temperature_high_def)

theorem nan_never_exposed_witness:
  "state sample_device = Some sample_state
   \<and> isnan (state_target_temperature sample_state)
   \<and> target_temperature sample_device = None
   \<and> \<not> isnan (state_target_temperature_low sample_state)
   \<and> target_temperature_low sample_device = Some (Finite 18)"
proof -
  have s: "state sample_device = Some sample_state"
    by (simp add: sample_device_def)
  have n: "isnan (state_target_temperature sample_state)"
    and l: "\<not> isnan (state_target_temperature_low sample_state)"
    and v: "state_target_temperature_low sample_state = Finite 18"
    by (simp_all add: sample_state_def)
  from nan_never_exposed [OF s] s n l v show ?thesis by simp
qed

lemma float_ge_refl: "float_ge a b \<Longrightarrow> float_ge a a"
  by (cases a; cases b) simp_all

lemma float_ge_refl2: "float_ge a b \<Longrightarrow> float_ge b b"
  by (cases a; cases b) simp_all

lemma float_ge_trans: "float_ge a b \<Longrightarrow> float_ge b c \<Longrightarrow> float_ge a c"
  by (cases a; cases b; cases c) simp_all

text \<open>
  C9. Let the three precisions of the platform be ordered, whole above halves above tenths.
  Then the precision of an entity is the first of whole, halves, tenths that the visual
  temperature step reaches, which is the largest of the three that is at most the step; and
  it is tenths when the step reaches none of them.
\<close>

theorem precision_selection:
  assumes wh: "float_ge (PRECISION_WHOLE K) (PRECISION_HALVES K)"
    and ht: "float_ge (PRECISION_HALVES K) (PRECISION_TENTHS K)"
  shows "(float_ge (visual_temperature_step (static_info self)) (PRECISION_WHOLE K) \<longrightarrow>
            precision K self = PRECISION_WHOLE K)
       \<and> (\<not> float_ge (visual_temperature_step (static_info self)) (PRECISION_WHOLE K)
          \<and> float_ge (visual_temperature_step (static_info self)) (PRECISION_HALVES K) \<longrightarrow>
            precision K self = PRECISION_HALVES K)
       \<and> (\<not> float_ge (visual_temperature_step (static_info self)) (PRECISION_HALVES K)
          \<and> float_ge (visual_temperature_step (static_info self)) (PRECISION_TENTHS K) \<longrightarrow>
            precision K self = PRECISION_TENTHS K)
       \<and> (\<not> float_ge (visual_temperature_step (static_info self)) (PRECISION_TENTHS K) \<longrightarrow>
            precision K self = PRECISION_TENTHS K)
       \<and> (\<forall>q \<in> {PRECISION_WHOLE K, PRECISION_HALVES K, PRECISION_TENTHS K}.
            float_ge (visual_temperature_step (static_info self)) q \<longrightarrow>
              float_ge (visual_temperature_step (static_info self)) (precision K self)
              \<and> float_ge (precision K self) q)"
proof -
  let ?s = "visual_temperature_step (static_info self)"
  have wt: "float_ge (PRECISION_WHOLE K) (PRECISION_TENTHS K)"
    using wh ht by (rule float_ge_trans)
  have rw: "float_ge (PRECISION_WHOLE K) (PRECISION_WHOLE K)"
    using wh by (rule float_ge_refl)
  have rh: "float_ge (PRECISION_HALVES K) (PRECISION_HALVES K)"
    using ht by (rule float_ge_refl)
  have rt: "float_ge (PRECISION_TENTHS K) (PRECISION_TENTHS K)"
    using ht by (rule float_ge_refl2)
  have h_w: "float_ge ?s (PRECISION_WHOLE K) \<Longrightarrow> float_ge ?s (PRECISION_HALVES K)"
    using wh by (rule float_ge_trans [rotated])
  have t_h: "float_ge ?s (PRECISION_HALVES K) \<Longrightarrow> float_ge ?s (PRECISION_TENTHS K)"
    using ht by (rule float_ge_trans [rotated])
  show ?thesis
    using wh ht wt rw rh rt h_w t_h by (auto simp add: precision_def)
qed

theorem precision_selection_witness:
  "float_ge (PRECISION_WHOLE sample_const) (PRECISION_HALVES sample_const)
   \<and> float_ge (PRECISION_HALVES sample_const) (PRECISION_TENTHS sample_const)
   \<and> \<not> float_ge (visual_temperature_step (static_info sample_device))
          (PRECISION_WHOLE sample_const)
   \<and> float_ge (visual_temperature_step (static_info sample_device))
          (PRECISION_HALVES sample_const)
   \<and> precision sample_const sample_device = PRECISION_HALVES sample_const"
proof -
  have wh: "float_ge (PRECISION_WHOLE sample_const) (PRECISION_HALVES sample_const)"
    and ht: "float_ge (PRECISION_HALVES sample_const) (PRECISION_TENTHS sample_const)"
    by (simp_all add: sample_const_def)
  have a: "\<not> float_ge (visual_temperature_step (static_info sample_device))
          (PRECISION_WHOLE sample_const)"
    and b: "float_ge (visual_temperature_step (static_info sample_device))
          (PRECISION_HALVES sample_const)"
    by (simp_all add: sample_const_def sample_device_def sample_info_def)
  from precision_selection [OF wh ht, of sample_device] wh ht a b show ?thesis by blast
qed

section \<open>What the commands send\<close>

lemma async_set_temperature_frame:
  "static_info (snd (async_set_temperature K api self kwargs)) = static_info self
   \<and> state (snd (async_set_temperature K api self kwargs)) = state self"
  by (simp add: async_set_temperature_def climate_command_def Let_def
        split: option.splits sum.splits)

text \<open>
  Setting the operation mode \<^verbatim>\<open>dry\<close>, which is none of the four state strings, raises
  \<^verbatim>\<open>KeyError\<close> and no call is made on the client, even on one that accepts every call.
\<close>

theorem command_without_call_counterexample:
  "fst (async_set_operation_mode sample_const sample_api_up sample_device ''dry'')
     = Raised KeyError
   \<and> client (snd (async_set_operation_mode sample_const sample_api_up sample_device ''dry''))
       = client sample_device"
  by (simp add: async_set_operation_mode_def ha_climate_mode_to_esphome_cases sample_const_def)

text \<open>
  C4, as amended. Turning away mode on or off makes exactly one call on the client, with the
  key of the static info and the away flag. Setting the operation mode to a string that the
  dictionary translates makes exactly one call, with the key and the translated mode. Setting
  the temperature, with no operation mode among the keyword arguments or with one that the
  dictionary translates, makes exactly one call, with the key, the translated mode if there
  is one, and the temperature arguments that are present. In each of these cases the method
  returns when the call returns and raises the call's exception when the call raises, and
  the entity differs from the one before in that one call only. Whatever the client does and
  whether the method returns or raises, no method changes the static info or the state.
\<close>

theorem command_pass_through:
  "async_turn_away_mode_on api self =
     (client_outcome api
        \<lparr> cmd_key = key (static_info self), cmd_mode = None,
          cmd_target_temperature = None, cmd_target_temperature_low = None,
          cmd_target_temperature_high = None, cmd_away = Some True \<rparr> self,
      self\<lparr>client := client self @
        [\<lparr> cmd_key = key (static_info self), cmd_mode = None,
           cmd_target_temperature = None, cmd_target_temperature_low = None,
           cmd_target_temperature_high = None, cmd_away = Some True \<rparr>]\<rparr>)
   \<and> async_turn_away_mode_off api self =
     (client_outcome api
        \<lparr> cmd_key = key (static_info self), cmd_mode = None,
          cmd_target_temperature = None, cmd_target_temperature_low = None,
          cmd_target_temperature_high = None, cmd_away = Some False \<rparr> self,
      self\<lparr>client := client self @
        [\<lparr> cmd_key = key (static_info self), cmd_mode = None,
           cmd_target_temperature = None, cmd_target_temperature_low = None,
           cmd_target_temperature_high = None, cmd_away = Some False \<rparr>]\<rparr>)
   \<and> (\<forall>m. ha_climate_mode_to_esphome K operation_mode = Inr m \<longrightarrow>
        async_set_operation_mode K api self operation_mode =
          (client_outcome api
             \<lparr> cmd_key = key (static_info self), cmd_mode = Some m,
               cmd_target_temperature = None, cmd_target_temperature_low = None,
               cmd_target_temperature_high = None, cmd_away = None \<rparr> self,
           self\<lparr>client := client self @
             [\<lparr> cmd_key = key (static_info self), cmd_mode = Some m,
                cmd_target_temperature = None, cmd_target_temperature_low = None,
                cmd_target_temperature_high = None, cmd_away = None \<rparr>]\<rparr>))
   \<and> (kwargs (ATTR_OPERATION_MODE K) = None \<longrightarrow>
        async_set_temperature K api self kwargs =
          (client_outcome api
             \<lparr> cmd_key = key (static_info self), cmd_mode = None,
               cmd_target_temperature = kwargs (ATTR_TEMPERATURE K),
               cmd_target_temperature_low = kwargs (ATTR_TARGET_TEMP_LOW K),
               cmd_target_temperature_high = kwargs (ATTR_TARGET_TEMP_HIGH K),
               cmd_away = None \<rparr> self,
           self\<lparr>client := client self @
             [\<lparr> cmd_key = key (static_info self), cmd_mode = None,
                cmd_target_temperature = kwargs (ATTR_TEMPERATURE K),
                cmd_target_temperature_low = kwargs (ATTR_TARGET_TEMP_LOW K),
                cmd_target_temperature_high = kwargs (ATTR_TARGET_TEMP_HIGH K),
                cmd_away = None \<rparr>]\<rparr>))
   \<and> (\<forall>v m. kwargs (ATTR_OPERATION_MODE K) = Some v
             \<and> ha_climate_mode_of_kwarg K v = Inr m \<longrightarrow>
        async_set_temperature K api self kwargs =
          (client_outcome api
             \<lparr> cmd_key = key (static_info self), cmd_mode = Some m,
               cmd_target_temperature = kwargs (ATTR_TEMPERATURE K),
               cmd_target_temperature_low = kwargs (ATTR_TARGET_TEMP_LOW K),
               cmd_target_temperature_high = kwargs (ATTR_TARGET_TEMP_HIGH K),
               cmd_away = None \<rparr> self,
           self\<lparr>client := client self @
             [\<lparr> cmd_key = key (static_info self), cmd_mode = Some m,
                cmd_target_temperature = kwargs (ATTR_TEMPERATURE K),
                cmd_target_temperature_low = kwargs (ATTR_TARGET_TEMP_LOW K),
                cmd_target_temperature_high = kwargs (ATTR_TARGET_TEMP_HIGH K),
                cmd_away = None \<rparr>]\<rparr>))
   \<and> (\<forall>data. (api data (client self) = None \<longrightarrow> client_outcome api data self = Returned)
            \<and> (\<forall>e. api data (client self) = Some e \<longrightarrow>
                   client_outcome api data self = Raised e))
   \<and> static_info (snd (async_set_temperature K api self kwargs)) = static_info self
   \<and> state (snd (async_set_temperature K api self kwargs)) = state self
   \<and> static_info (snd (async_set_operation_mode K api self operation_mode)) = static_info self
   \<and> state (snd (async_set_operation_mode K api self operation_mode)) = state self"
proof -
  have on: "async_turn_away_mode_on api self =
     (client_outcome api
        \<lparr> cmd_key = key (static_info self), cmd_mode = None,
          cmd_target_temperature = None, cmd_target_temperature_low = None,
          cmd_target_temperature_high = None, cmd_away = Some True \<rparr> self,
      self\<lparr>client := client self @
        [\<lparr> cmd_key = key (static_info self), cmd_mode = None,
           cmd_target_temperature = None, cmd_target_temperature_low = None,
           cmd_target_temperature_high = None, cmd_away = Some True \<rparr>]\<rparr>)"
    by (simp add: async_turn_away_mode_on_def climate_command_def)
  have off: "async_turn_away_mode_off api self =
     (client_outcome api
        \<lparr> cmd_key = key (static_info self), cmd_mode = None,
          cmd_target_temperature = None, cmd_target_temperature_low = None,
          cmd_target_temperature_high = None, cmd_away = Some False \<rparr> self,
      self\<lparr>client := client self @
        [\<lparr> cmd_key = key (static_info self), cmd_mode = None,
           cmd_target_temperature = None, cmd_target_temperature_low = None,
           cmd_target_temperature_high = None, cmd_away = Some False \<rparr>]\<rparr>)"
    by (simp add: async_turn_away_mode_off_def climate_command_def)
  have mode: "\<forall>m. ha_climate_mode_to_esphome K operation_mode = Inr m \<longrightarrow>
        async_set_operation_mode K api self operation_mode =
          (client_outcome api
             \<lparr> cmd_key = key (static_info self), cmd_mode = Some m,
               cmd_target_temperature = None, cmd_target_temperature_low = None,
               cmd_target_temperature_high = None, cmd_away = None \<rparr> self,
           self\<lparr>client := client self @
             [\<lparr> cmd_key = key (static_info self), cmd_mode = Some m,
                cmd_target_temperature = None, cmd_target_temperature_low = None,
                cmd_target_temperature_high = None, cmd_away = None \<rparr>]\<rparr>)"
    by (simp add: async_set_operation_mode_def climate_command_def)
  have temp: "kwargs (ATTR_OPERATION_MODE K) = None \<longrightarrow>
        async_set_temperature K api self kwargs =
          (client_outcome api
             \<lparr> cmd_key = key (static_info self), cmd_mode = None,
               cmd_target_temperature = kwargs (ATTR_TEMPERATURE K),
               cmd_target_temperature_low = kwargs (ATTR_TARGET_TEMP_LOW K),
               cmd_target_temperature_high = kwargs (ATTR_TARGET_TEMP_HIGH K),
               cmd_away = None \<rparr> self,
           self\<lparr>client := client self @
             [\<lparr> cmd_key = key (static_info self), cmd_mode = None,
                cmd_target_temperature = kwargs (ATTR_TEMPERATURE K),
                cmd_target_temperature_low = kwargs (ATTR_TARGET_TEMP_LOW K),
                cmd_target_temperature_high = kwargs (ATTR_TARGET_TEMP_HIGH K),
                cmd_away = None \<rparr>]\<rparr>)"
    by (simp add: async_set_temperature_def climate_command_def Let_def
          split: option.splits)
  have temp_mode: "\<forall>v m. kwargs (ATTR_OPERATION_MODE K) = Some v
             \<and> ha_climate_mode_of_kwarg K v = Inr m \<longrightarrow>
        async_set_temperature K api self kwargs =
          (client_outcome api
             \<lparr> cmd_key = key (static_info self), cmd_mode = Some m,
               cmd_target_temperature = kwargs (ATTR_TEMPERATURE K),
               cmd_target_temperature_low = kwargs (ATTR_TARGET_TEMP_LOW K),
               cmd_target_temperature_high = kwargs (ATTR_TARGET_TEMP_HIGH K),
               cmd_away = None \<rparr> self,
           self\<lparr>client := client self @
             [\<lparr> cmd_key = key (static_info self), cmd_mode = Some m,
                cmd_target_temperature = kwargs (ATTR_TEMPERATURE K),
                cmd_target_temperature_low = kwargs (ATTR_TARGET_TEMP_LOW K),
                cmd_target_temperature_high = kwargs (ATTR_TARGET_TEMP_HIGH K),
                cmd_away = None \<rparr>]\<rparr>)"
    by (simp add: async_set_temperature_def climate_command_def Let_def
          split: option.splits)
  have out: "\<forall>data. (api data (client self) = None \<longrightarrow> client_outcome api data self = Returned)
            \<and> (\<forall>e. api data (client self) = Some e \<longrightarrow>
                   client_outcome api data self = Raised e)"
    by (simp add: client_outcome_def)
  have frame_mode:
    "static_info (snd (async_set_operation_mode K api self operation_mode)) = static_info self"
    "state (snd (async_set_operation_mode K api self operation_mode)) = state self"
    by (simp_all add: async_set_operation_mode_def climate_command_def split: sum.splits)
  from on off mode temp temp_mode out frame_mode
    async_set_temperature_frame [of K api self kwargs]
  show ?thesis by blast
qed

theorem command_pass_through_witness:
  "ha_climate_mode_to_esphome sample_const ''heat'' = Inr HEAT
   \<and> async_set_operation_mode sample_const sample_api_up sample_device ''heat'' =
       (Returned, sample_device\<lparr>client :=
          [\<lparr> cmd_key = 42, cmd_mode = Some HEAT,
             cmd_target_temperature = None, cmd_target_temperature_low = None,
             cmd_target_temperature_high = None, cmd_away = None \<rparr>]\<rparr>)
   \<and> sample_kwargs (ATTR_OPERATION_MODE sample_const) = None
   \<and> async_set_temperature sample_const sample_api_up sample_device sample_kwargs =
       (Returned, sample_device\<lparr>client :=
          [\<lparr> cmd_key = 42, cmd_mode = None,
             cmd_target_temperature = Some (PFloat (Finite 21)),
             cmd_target_temperature_low = None,
             cmd_target_temperature_high = None, cmd_away = None \<rparr>]\<rparr>)
   \<and> sample_kwargs_mode (ATTR_OPERATION_MODE sample_const) = Some (PStr ''cool'')
   \<and> ha_climate_mode_of_kwarg sample_const (PStr ''cool'') = Inr COOL
   \<and> async_set_temperature sample_const sample_api_up sample_device sample_kwargs_mode =
       (Returned, sample_device\<lparr>client :=
          [\<lparr> cmd_key = 42, cmd_mode = Some COOL,
             cmd_target_temperature = None,
             cmd_target_temperature_low = Some (PInt 18),
             cmd_target_temperature_high = Some (PFloat (Finite 24)), cmd_away = None \<rparr>]\<rparr>)
   \<and> async_turn_away_mode_on sample_api_down sample_device =
       (Raised ClientError, sample_device\<lparr>client :=
          [\<lparr> cmd_key = 42, cmd_mode = None,
             cmd_target_temperature = None, cmd_target_temperature_low = None,
             cmd_target_temperature_high = None, cmd_away = Some True \<rparr>]\<rparr>)"
proof -
  have h: "ha_climate_mode_to_esphome sample_const ''heat'' = Inr HEAT"
    by (simp add: ha_climate_mode_to_esphome_cases sample_const_def)
  have c: "ha_climate_mode_of_kwarg sample_const (PStr ''cool'') = Inr COOL"
    by (simp add: ha_climate_mode_to_esphome_cases sample_const_def)
  have k1: "sample_kwargs (ATTR_OPERATION_MODE sample_const) = None"
    "sample_kwargs (ATTR_TEMPERATURE sample_const) = Some (PFloat (Finite 21))"
    "sample_kwargs (ATTR_TARGET_TEMP_LOW sample_const) = None"
    "sample_kwargs (ATTR_TARGET_TEMP_HIGH sample_const) = None"
    by (simp_all add: sample_kwargs_def sample_const_def)
  have k2: "sample_kwargs_mode (ATTR_OPERATION_MODE sample_const) = Some (PStr ''cool'')"
    "sample_kwargs_mode (ATTR_TEMPERATURE sample_const) = None"
    "sample_kwargs_mode (ATTR_TARGET_TEMP_LOW sample_const) = Some (PInt 18)"
    "sample_kwargs_mode (ATTR_TARGET_TEMP_HIGH sample_const) = Some (PFloat (Finite 24))"
    by (simp_all add: sample_kwargs_mode_def sample_const_def)
  have d: "client sample_device = []" "key (static_info sample_device) = 42"
    by (simp_all add: sample_device_def sample_info_def)
  have u: "\<And>data. sample_api_up data (client sample_device) = None"
    and dn: "\<And>data. sample_api_down data (client sample_device) = Some ClientError"
    by (simp_all add: sample_api_up_def sample_api_down_def)
  from command_pass_through
         [of sample_api_up sample_device sample_const "''heat''" sample_kwargs]
    command_pass_through
         [of sample_api_up sample_device sample_const "''heat''" sample_kwargs_mode]
    command_pass_through
         [of sample_api_down sample_device sample_const "''heat''" sample_kwargs]
    h c k1 k2 d u dn
  show ?thesis by simp
qed

text \<open>
  C10. The translation from the platform's strings is defined on the four state strings
  and raises \<^verbatim>\<open>KeyError\<close> on every other string. With such a string, setting the operation
  mode raises \<^verbatim>\<open>KeyError\<close> and leaves the entity, the client with it, as it was, whatever
  the client would do with a call; so does setting the temperature when the string is the
  operation mode among the keyword arguments.
\<close>

theorem unsupported_mode_raises:
  "(ha_climate_mode_to_esphome K mode = Inl KeyError
      \<longleftrightarrow> mode \<notin> {STATE_OFF K, STATE_AUTO K, STATE_COOL K, STATE_HEAT K})
   \<and> (mode \<in> {STATE_OFF K, STATE_AUTO K, STATE_COOL K, STATE_HEAT K} \<longrightarrow>
        (\<exists>m. ha_climate_mode_to_esphome K mode = Inr m))
   \<and> (mode \<notin> {STATE_OFF K, STATE_AUTO K, STATE_COOL K, STATE_HEAT K} \<longrightarrow>
        async_set_operation_mode K api self mode = (Raised KeyError, self)
        \<and> (kwargs (ATTR_OPERATION_MODE K) = Some (PStr mode) \<longrightarrow>
             async_set_temperature K api self kwargs = (Raised KeyError, self)))"
  by (auto simp add: ha_climate_mode_to_esphome_cases async_set_operation_mode_def
        async_set_temperature_def Let_def)

theorem unsupported_mode_raises_witness:
  "''dry'' \<notin> {STATE_OFF sample_const, STATE_AUTO sample_const, STATE_COOL sample_const,
               STATE_HEAT sample_const}
   \<and> sample_kwargs_dry (ATTR_OPERATION_MODE sample_const) = Some (PStr ''dry'')
   \<and> ha_climate_mode_to_esphome sample_const ''dry'' = Inl KeyError
   \<and> async_set_operation_mode sample_const sample_api_up sample_device ''dry''
       = (Raised KeyError, sample_device)
   \<and> async_set_temperature sample_const sample_api_up sample_device sample_kwargs_dry
       = (Raised KeyError, sample_device)
   \<and> ''auto'' \<in> {STATE_OFF sample_const, STATE_AUTO sample_const, STATE_COOL sample_const,
               STATE_HEAT sample_const}
   \<and> (\<exists>m. ha_climate_mode_to_esphome sample_const ''auto'' = Inr m)"
proof -
  have n: "''dry'' \<notin> {STATE_OFF sample_const, STATE_AUTO sample_const,
               STATE_COOL sample_const, STATE_HEAT sample_const}"
    and a: "''auto'' \<in> {STATE_OFF sample_const, STATE_AUTO sample_const,
               STATE_COOL sample_const, STATE_HEAT sample_const}"
    by (simp_all add: sample_const_def)
  have k: "sample_kwargs_dry (ATTR_OPERATION_MODE sample_const) = Some (PStr ''dry'')"
    by (simp add: sample_kwargs_dry_def sample_const_def)
  from unsupported_mode_raises
         [of sample_const "''dry''" sample_api_up sample_device sample_kwargs_dry]
    unsupported_mode_raises
         [of sample_const "''auto''" sample_api_up sample_device sample_kwargs_dry]
    n a k
  show ?thesis by blast
qed

end
